theory Spec2Isabelle
  imports Main "HOL-Library.Word"
begin

section \<open>JavaScript values used by the application\<close>

text \<open>
  A JavaScript string is a sequence of UTF-16 code units.  String literals of the
  source are ASCII and are written through \<open>ascii\<close>.
\<close>

type_synonym jsstring = "16 word list"

definition ascii :: "string \<Rightarrow> jsstring" where
  "ascii s = map (\<lambda>c. of_nat (of_char c)) s"

text \<open>
  \<open>String.prototype.trim\<close> strips the code units of the ECMAScript productions
  WhiteSpace and LineTerminator from both ends: TAB, LF, VT, FF, CR, SP, NBSP, U+1680,
  U+2000..U+200A, U+2028, U+2029, U+202F, U+205F, U+3000 and U+FEFF.
\<close>

definition is_ws :: "16 word \<Rightarrow> bool" where
  "is_ws c = (let n = unat c in
     n \<in> {9, 10, 11, 12, 13, 32, 160, 5760, 8232, 8233, 8239, 8287, 12288, 65279}
     \<or> (8192 \<le> n \<and> n \<le> 8202))"

definition trim :: "jsstring \<Rightarrow> jsstring" where
  "trim s = rev (dropWhile is_ws (rev (dropWhile is_ws s)))"

text \<open>The decimal rendering of a number inside a template literal.\<close>

fun decimal :: "nat \<Rightarrow> jsstring" where
  "decimal n = (if n < 10 then [of_nat (48 + n)]
                else decimal (n div 10) @ [of_nat (48 + n mod 10)])"

declare decimal.simps [simp del]

text \<open>
  Values produced by \<open>JSON.parse\<close> (the types \<open>unknown\<close> and \<open>any\<close> of the source).
  Numbers are kept as integers: the only thing the code asks of a number is whether it
  is zero.  An object is the list of its own properties.
\<close>

datatype json =
    JNull
  | JBool bool
  | JNum int
  | JStr jsstring
  | JArr "json list"
  | JObj "(jsstring \<times> json) list"

text \<open>
  The result of a property read \<open>v.key\<close>: \<open>None\<close> is \<open>undefined\<close>.  Reading a property
  of \<open>null\<close> throws and is handled where it occurs; primitives, arrays and objects
  without the key give \<open>undefined\<close>.
\<close>

fun get_prop :: "json \<Rightarrow> jsstring \<Rightarrow> json option" where
  "get_prop (JObj kvs) k = map_of kvs k"
| "get_prop _ k = None"

text \<open>JavaScript truthiness, as used by \<open>if (status.done)\<close>.\<close>

fun truthy :: "json option \<Rightarrow> bool" where
  "truthy None = False"
| "truthy (Some JNull) = False"
| "truthy (Some (JBool b)) = b"
| "truthy (Some (JNum n)) = (n \<noteq> 0)"
| "truthy (Some (JStr s)) = (s \<noteq> [])"
| "truthy (Some (JArr _)) = True"
| "truthy (Some (JObj _)) = True"

text \<open>
  A thrown value: an \<open>Error\<close> instance with its message, or anything else.  The
  handlers of the source all read \<open>error instanceof Error ? error.message : fallback\<close>.
\<close>

datatype exn = Error jsstring | NonError

fun message_or :: "exn \<Rightarrow> jsstring \<Rightarrow> jsstring" where
  "message_or (Error m) fallback = m"
| "message_or NonError fallback = fallback"

text \<open>The two shapes of a submit result (\<open>GenerateVideoResponse\<close>).\<close>

datatype GenerateVideoResponse =
    Success jsstring json
  | Stub jsstring

section \<open>The generation proxy: \<open>api/generate-video/route.ts\<close>\<close>

text \<open>
  \<open>NextResponse.json(value, {status})\<close>: an HTTP status and a JSON body.
\<close>

record http_response =
  http_status :: nat
  http_body :: json

definition json_response :: "json \<Rightarrow> nat \<Rightarrow> http_response" where
  "json_response b st = \<lparr>http_status = st, http_body = b\<rparr>"

definition error_body :: "jsstring \<Rightarrow> json" where
  "error_body m = JObj [(ascii ''error'', JStr m)]"

fun result_body :: "GenerateVideoResponse \<Rightarrow> json" where
  "result_body (Stub m) = JObj [(ascii ''status'', JStr (ascii ''stub'')), (ascii ''message'', JStr m)]"
| "result_body (Success opId raw) =
     JObj [(ascii ''status'', JStr (ascii ''success'')), (ascii ''operationId'', JStr opId),
           (ascii ''raw'', raw)]"

text \<open>
  \<open>RequestPayload\<close>: both fields are optional.  The type of one reference image
  (\<open>ReferenceImagePayload\<close>) is declared in the provider library and stays a type
  parameter.
\<close>

record 'img RequestPayload =
  body_prompt :: "jsstring option"
  body_referenceImages :: "'img list option"

text \<open>
  \<open>POST\<close>.  The provider entry point \<open>generateVideoWithGoogle\<close> lives in the provider
  library and is a parameter; it returns a result or throws.  \<open>request.json()\<close> yields
  the payload or throws.  The second component of the result lists the provider calls
  made, in order.
\<close>

definition POST ::
  "(jsstring \<times> 'img list \<Rightarrow> exn + GenerateVideoResponse) \<Rightarrow> exn + 'img RequestPayload
    \<Rightarrow> http_response \<times> (jsstring \<times> 'img list) list" where
  "POST generateVideoWithGoogle request_json =
     (let catch = (\<lambda>e. json_response
            (error_body (message_or e (ascii ''Something went wrong generating the video.''))) 500)
      in case request_json of
           Inl e \<Rightarrow> (catch e, [])
         | Inr body \<Rightarrow>
             let prompt = trim (case body_prompt body of None \<Rightarrow> [] | Some p \<Rightarrow> p) in
             if prompt = [] then
               (json_response (error_body (ascii ''Prompt is required.'')) 400, [])
             else
               let referenceImages =
                     take 4 (case body_referenceImages body of None \<Rightarrow> [] | Some xs \<Rightarrow> xs) in
               if length referenceImages = 0 then
                 (json_response
                    (error_body (ascii ''At least one reference image is required.'')) 400, [])
               else
                 (case generateVideoWithGoogle (prompt, referenceImages) of
                    Inl e \<Rightarrow> (catch e, [(prompt, referenceImages)])
                  | Inr result \<Rightarrow>
                      (json_response (result_body result) 200, [(prompt, referenceImages)])))"

section \<open>The status endpoint: \<open>api/operations/[operationId]/route.ts\<close>\<close>

text \<open>
  \<open>decodeURIComponent\<close>, after the abstract operation Decode of ECMAScript with an
  empty set of preserved escapes: every \<open>%XX\<close> escape is replaced by the code point
  whose UTF-8 encoding the escaped octets are; a truncated escape, a non-hexadecimal
  digit or an octet sequence that is not well-formed UTF-8 throws a \<open>URIError\<close>.
\<close>

definition hexval :: "16 word \<Rightarrow> nat option" where
  "hexval c = (let n = unat c in
     if 48 \<le> n \<and> n \<le> 57 then Some (n - 48)
     else if 65 \<le> n \<and> n \<le> 70 then Some (n - 55)
     else if 97 \<le> n \<and> n \<le> 102 then Some (n - 87)
     else None)"

fun ParseHexOctet :: "jsstring \<Rightarrow> nat option" where
  "ParseHexOctet (a # b # rest) =
     (case hexval a of
        None \<Rightarrow> None
      | Some x \<Rightarrow> (case hexval b of None \<Rightarrow> None | Some y \<Rightarrow> Some (16 * x + y)))"
| "ParseHexOctet _ = None"

text \<open>The number of leading 1 bits of an octet (5 stands for "more than four").\<close>

definition leading_ones :: "nat \<Rightarrow> nat" where
  "leading_ones b =
     (if b < 128 then 0 else if b < 192 then 1 else if b < 224 then 2
      else if b < 240 then 3 else if b < 248 then 4 else 5)"

text \<open>Reads \<open>m\<close> further escapes \<open>%XX\<close>; gives their octets and the rest of the string.\<close>

fun continuation :: "nat \<Rightarrow> jsstring \<Rightarrow> (nat list \<times> jsstring) option" where
  "continuation 0 s = Some ([], s)"
| "continuation (Suc m) [] = None"
| "continuation (Suc m) (p # s) =
     (if p \<noteq> 37 then None
      else case ParseHexOctet s of
             None \<Rightarrow> None
           | Some b \<Rightarrow>
               (case continuation m (drop 2 s) of
                  None \<Rightarrow> None
                | Some (bs, r) \<Rightarrow> Some (b # bs, r)))"

definition is_cont :: "nat \<Rightarrow> bool" where
  "is_cont b = (128 \<le> b \<and> b \<le> 191)"

text \<open>
  The code point of a multi-octet UTF-8 sequence, when the sequence is well formed:
  continuation octets in 80..BF, shortest form, no surrogate, at most U+10FFFF.
\<close>

fun utf8_code_point :: "nat list \<Rightarrow> nat option" where
  "utf8_code_point [b0, b1] =
     (let v = (b0 - 192) * 64 + (b1 - 128)
      in if is_cont b1 \<and> 128 \<le> v then Some v else None)"
| "utf8_code_point [b0, b1, b2] =
     (let v = (b0 - 224) * 4096 + (b1 - 128) * 64 + (b2 - 128)
      in if is_cont b1 \<and> is_cont b2 \<and> 2048 \<le> v \<and> \<not> (55296 \<le> v \<and> v \<le> 57343)
         then Some v else None)"
| "utf8_code_point [b0, b1, b2, b3] =
     (let v = (b0 - 240) * 262144 + (b1 - 128) * 4096 + (b2 - 128) * 64 + (b3 - 128)
      in if is_cont b1 \<and> is_cont b2 \<and> is_cont b3 \<and> 65536 \<le> v \<and> v \<le> 1114111
         then Some v else None)"
| "utf8_code_point _ = None"

definition UTF16EncodeCodePoint :: "nat \<Rightarrow> jsstring" where
  "UTF16EncodeCodePoint v =
     (if v \<le> 65535 then [of_nat v]
      else [of_nat (55296 + (v - 65536) div 1024), of_nat (56320 + (v - 65536) mod 1024)])"

lemma continuation_length:
  "continuation m s = Some (bs, r) \<Longrightarrow> length r \<le> length s"
proof (induction m s arbitrary: bs r rule: continuation.induct)
  case (1 s)
  then show ?case by simp
next
  case (2 m)
  then show ?case by simp
next
  case (3 m p s)
  from "3.prems" obtain b bs' where
    p: "p = 37" and b: "ParseHexOctet s = Some b"
    and c: "continuation m (drop 2 s) = Some (bs', r)"
    by (auto split: if_splits option.splits)
  from "3.IH" [OF _ b c] p have "length r \<le> length (drop 2 s)" by simp
  then show ?case by simp
qed

function Decode :: "jsstring \<Rightarrow> jsstring option" where
  "Decode [] = Some []"
| "Decode (c # cs) =
     (if c \<noteq> 37 then map_option ((#) c) (Decode cs)
      else case ParseHexOctet cs of
             None \<Rightarrow> None
           | Some b \<Rightarrow>
               (let n = leading_ones b in
                if n = 0 then map_option ((#) (of_nat b)) (Decode (drop 2 cs))
                else if n = 1 \<or> 4 < n then None
                else case continuation (n - 1) (drop 2 cs) of
                       None \<Rightarrow> None
                     | Some (octets, rest) \<Rightarrow>
                         (case utf8_code_point (b # octets) of
                            None \<Rightarrow> None
                          | Some v \<Rightarrow>
                              map_option ((@) (UTF16EncodeCodePoint v)) (Decode rest))))"
  by pat_completeness auto
termination
proof (relation "measure length", goal_cases)
  case 1
  show ?case by simp
next
  case (2 c cs)
  show ?case by simp
next
  case (3 c cs b n)
  show ?case by simp
next
  case (4 c cs b n x2 octets rest)
  then have "length rest \<le> length (drop 2 cs)"
    using continuation_length [of "n - 1" "drop 2 cs" octets rest] by simp
  then show ?case by simp
qed

text \<open>The message of the \<open>URIError\<close> is the engine's; V8 words it as below.\<close>

definition URIError_message :: jsstring where
  "URIError_message = ascii ''URI malformed''"

definition decodeURIComponent :: "jsstring \<Rightarrow> exn + jsstring" where
  "decodeURIComponent s =
     (case Decode s of None \<Rightarrow> Inl (Error URIError_message) | Some d \<Rightarrow> Inr d)"

text \<open>
  \<open>GET\<close>.  The provider's status lookup \<open>getOperationStatus\<close> lives in the provider
  library and is a parameter; it returns the status payload or throws.  The second
  component of the result lists the handles the lookup was called with.
\<close>

definition GET :: "(jsstring \<Rightarrow> exn + json) \<Rightarrow> jsstring \<Rightarrow> http_response \<times> jsstring list" where
  "GET getOperationStatus operationId =
     (let catch = (\<lambda>e. json_response
            (error_body (message_or e (ascii ''Something went wrong querying operation status.'')))
            500)
      in if operationId = [] then
           (json_response (error_body (ascii ''operationId is required'')) 400, [])
         else
           (case decodeURIComponent operationId of
              Inl e \<Rightarrow> (catch e, [])
            | Inr decodedId \<Rightarrow>
                (case getOperationStatus decodedId of
                   Inl e \<Rightarrow> (catch e, [decodedId])
                 | Inr status \<Rightarrow> (json_response status 200, [decodedId]))))"

section \<open>The operation lifecycle controller: the \<open>Home\<close> component\<close>

subsection \<open>Component state\<close>

record File =
  file_name :: jsstring
  file_type :: jsstring

text \<open>\<open>ReferenceImageInput\<close>; the optional fields are absent when \<open>None\<close>.\<close>

record ReferenceImageInput =
  image_id :: nat
  name :: jsstring
  dataUrl :: "jsstring option"
  image_file :: "File option"
  error :: "jsstring option"

definition MAX_REFERENCE_IMAGES :: nat where
  "MAX_REFERENCE_IMAGES = 2"

text \<open>
  The values held by the \<open>useState\<close> hooks and by \<open>pollTimerRef\<close>.  An interval handle
  is a positive integer (or a \<open>Timeout\<close> object), so \<open>if (pollTimerRef.current)\<close> is
  the test that the reference is not \<open>null\<close>.  \<open>operationStatus\<close> starts as \<open>null\<close>.
\<close>

record controller =
  prompt :: jsstring
  images :: "ReferenceImageInput list"
  submitting :: bool
  errorMessage :: "jsstring option"
  stubMessage :: "jsstring option"
  operationId :: "jsstring option"
  operationStatus :: json
  polling :: bool
  pollTimerRef :: "nat option"

text \<open>
  The browser around the component: the interval timers that are active, each with the
  \<open>operationId\<close> its \<open>poll\<close> closure captured; the \<open>fetch\<close> calls that have not
  resolved yet (submit calls are counted, status queries are listed by the captured
  \<open>operationId\<close>, oldest first); and the log of every request sent.
\<close>

datatype request =
    SubmitCall jsstring "(jsstring \<times> jsstring) list"
  | StatusQuery jsstring

record world =
  ctl :: controller
  timers :: "(nat \<times> jsstring) list"
  next_timer :: nat
  submits_pending :: nat
  polls_pending :: "jsstring list"
  network :: "request list"

definition initial_images :: "ReferenceImageInput list" where
  "initial_images =
     map (\<lambda>index. \<lparr>image_id = index,
                     name = ascii ''reference-image-'' @ decimal (index + 1),
                     dataUrl = None, image_file = None, error = None\<rparr>)
         [0 ..< MAX_REFERENCE_IMAGES]"

definition initial_controller :: controller where
  "initial_controller =
     \<lparr>prompt = [], images = initial_images, submitting = False, errorMessage = None,
      stubMessage = None, operationId = None, operationStatus = JNull, polling = False,
      pollTimerRef = None\<rparr>"

definition initial_world :: world where
  "initial_world =
     \<lparr>ctl = initial_controller, timers = [], next_timer = 1, submits_pending = 0,
      polls_pending = [], network = []\<rparr>"

definition setState :: "(controller \<Rightarrow> controller) \<Rightarrow> world \<Rightarrow> world" where
  "setState f w = w\<lparr>ctl := f (ctl w)\<rparr>"

subsection \<open>Timers\<close>

definition clearInterval :: "nat \<Rightarrow> world \<Rightarrow> world" where
  "clearInterval t w = w\<lparr>timers := filter (\<lambda>(i, captured). i \<noteq> t) (timers w)\<rparr>"

definition setInterval :: "jsstring \<Rightarrow> world \<Rightarrow> nat \<times> world" where
  "setInterval captured w =
     (let t = next_timer w
      in (t, w\<lparr>timers := timers w @ [(t, captured)], next_timer := Suc t\<rparr>))"

text \<open>
  The block that occurs three times in the source (in the effect and in both exits of
  \<open>poll\<close>):
  \<^verbatim>\<open>if (pollTimerRef.current) { clearInterval(pollTimerRef.current); pollTimerRef.current = null; }\<close>
\<close>

definition clearPollTimer :: "world \<Rightarrow> world" where
  "clearPollTimer w =
     (case pollTimerRef (ctl w) of
        None \<Rightarrow> w
      | Some t \<Rightarrow> setState (\<lambda>c. c\<lparr>pollTimerRef := None\<rparr>) (clearInterval t w))"

subsection \<open>\<open>poll\<close>\<close>

text \<open>
  \<open>encodeURIComponent\<close> throws a \<open>URIError\<close> exactly when its argument has a surrogate
  code unit that is not part of a pair.
\<close>

definition is_high_surrogate :: "16 word \<Rightarrow> bool" where
  "is_high_surrogate c = (55296 \<le> unat c \<and> unat c \<le> 56319)"

definition is_low_surrogate :: "16 word \<Rightarrow> bool" where
  "is_low_surrogate c = (56320 \<le> unat c \<and> unat c \<le> 57343)"

fun well_formed_utf16 :: "jsstring \<Rightarrow> bool" where
  "well_formed_utf16 [] = True"
| "well_formed_utf16 [c] = (\<not> is_high_surrogate c \<and> \<not> is_low_surrogate c)"
| "well_formed_utf16 (c # d # s) =
     (if is_high_surrogate c then is_low_surrogate d \<and> well_formed_utf16 s
      else \<not> is_low_surrogate c \<and> well_formed_utf16 (d # s))"

text \<open>The replies a status query can get.\<close>

datatype poll_reply =
    PollRejected exn
  | PollNotOk nat
  | PollOk "exn + json"

text \<open>The \<open>catch\<close> block of \<open>poll\<close>.\<close>

definition poll_catch :: "exn \<Rightarrow> world \<Rightarrow> world" where
  "poll_catch e w =
     clearPollTimer
       (setState (\<lambda>c. c\<lparr>polling := False,
                         errorMessage := Some (message_or e (ascii ''Failed to poll operation.''))\<rparr>) w)"

text \<open>
  \<open>poll\<close> up to its first \<open>await\<close>: the status query for the captured \<open>operationId\<close> is
  sent, unless building the URL throws.
\<close>

definition poll :: "jsstring \<Rightarrow> world \<Rightarrow> world" where
  "poll captured w =
     (if \<not> well_formed_utf16 captured then poll_catch (Error URIError_message) w
      else w\<lparr>polls_pending := polls_pending w @ [captured],
              network := network w @ [StatusQuery captured]\<rparr>)"

text \<open>The message of the \<open>TypeError\<close> for \<open>null.done\<close> is the engine's; V8's is below.\<close>

definition TypeError_message :: jsstring where
  "TypeError_message =
     ascii ''Cannot read properties of null (reading '' @ [39] @ ascii ''done'' @ [39] @ ascii '')''"

text \<open>\<open>poll\<close> from the moment its \<open>fetch\<close> settles.\<close>

fun poll_resume :: "poll_reply \<Rightarrow> world \<Rightarrow> world" where
  "poll_resume (PollRejected e) w = poll_catch e w"
| "poll_resume (PollNotOk st) w =
     poll_catch (Error (ascii ''Polling failed with '' @ decimal st)) w"
| "poll_resume (PollOk (Inl e)) w = poll_catch e w"
| "poll_resume (PollOk (Inr status)) w =
     (let w1 = setState (\<lambda>c. c\<lparr>operationStatus := status\<rparr>) w
      in if status = JNull then poll_catch (Error TypeError_message) w1
         else if truthy (get_prop status (ascii ''done'')) then
           setState (\<lambda>c. c\<lparr>polling := False\<rparr>) (clearPollTimer w1)
         else w1)"

subsection \<open>The effect on \<open>operationId\<close>\<close>

text \<open>
  The body of \<open>useEffect(..., [operationId])\<close>.  \<open>!operationId\<close> holds for \<open>null\<close> and for
  the empty string.
\<close>

definition operationIdEffect :: "world \<Rightarrow> world" where
  "operationIdEffect w =
     (case operationId (ctl w) of
        None \<Rightarrow> clearPollTimer w
      | Some opId \<Rightarrow>
          if opId = [] then clearPollTimer w
          else
            let w1 = setState (\<lambda>c. c\<lparr>polling := True\<rparr>) w;
                w2 = poll opId w1;
                (t, w3) = setInterval opId w2
            in setState (\<lambda>c. c\<lparr>pollTimerRef := Some t\<rparr>) w3)"

text \<open>
  The render that follows an event handler: the effect runs when \<open>operationId\<close> differs
  from its value \<open>before\<close> the handler.
\<close>

definition commit :: "controller \<Rightarrow> world \<Rightarrow> world" where
  "commit before w =
     (if operationId (ctl w) \<noteq> operationId before then operationIdEffect w else w)"

subsection \<open>\<open>handleSubmit\<close>\<close>

definition hasImages :: "controller \<Rightarrow> bool" where
  "hasImages c = list_ex (\<lambda>image. case dataUrl image of None \<Rightarrow> False | Some d \<Rightarrow> d \<noteq> []) (images c)"

text \<open>\<open>images.filter((image) => Boolean(image.dataUrl)).map(...)\<close>\<close>

definition referenceImages :: "controller \<Rightarrow> (jsstring \<times> jsstring) list" where
  "referenceImages c =
     List.map_filter
       (\<lambda>image. case dataUrl image of
                   None \<Rightarrow> None
                 | Some d \<Rightarrow> if d \<noteq> [] then Some (name image, d) else None)
       (images c)"

text \<open>The state after the \<open>catch\<close> and \<open>finally\<close> blocks of \<open>handleSubmit\<close>.\<close>

definition submit_catch :: "exn \<Rightarrow> controller \<Rightarrow> controller" where
  "submit_catch e c =
     c\<lparr>errorMessage := Some (message_or e (ascii ''Something went wrong.'')),
       submitting := False\<rparr>"

text \<open>
  \<open>handleSubmit\<close> up to its first \<open>await\<close>: the five resets, the two checks, and the
  submit call.
\<close>

definition handleSubmit :: "world \<Rightarrow> world" where
  "handleSubmit w =
     (let before = ctl w;
          c1 = before\<lparr>submitting := True, errorMessage := None, stubMessage := None,
                      operationId := None, operationStatus := JNull\<rparr>
      in if trim (prompt before) = [] then
           commit before (w\<lparr>ctl := submit_catch (Error (ascii ''Prompt is required.'')) c1\<rparr>)
         else if length (referenceImages before) = 0 then
           commit before
             (w\<lparr>ctl := submit_catch (Error (ascii ''At least one reference image is required.'')) c1\<rparr>)
         else
           commit before
             (w\<lparr>ctl := c1,
                submits_pending := Suc (submits_pending w),
                network := network w @ [SubmitCall (prompt before) (referenceImages before)]\<rparr>))"

text \<open>
  The replies a submit call can get: the \<open>fetch\<close> rejects; the response is not ok, with
  its status and the \<open>error\<close> text of its body when there is one; the response is ok and
  its body parses to a result or fails to parse.
\<close>

datatype submit_reply =
    SubmitRejected exn
  | SubmitNotOk nat "jsstring option"
  | SubmitOk "exn + GenerateVideoResponse"

text \<open>\<open>handleSubmit\<close> from the moment its \<open>fetch\<close> settles.\<close>

fun handleSubmit_resume :: "submit_reply \<Rightarrow> world \<Rightarrow> world" where
  "handleSubmit_resume (SubmitRejected e) w = commit (ctl w) (setState (submit_catch e) w)"
| "handleSubmit_resume (SubmitNotOk st detail) w =
     (let message = (case detail of
                       Some m \<Rightarrow> m
                     | None \<Rightarrow> ascii ''Request failed with '' @ decimal st)
      in commit (ctl w) (setState (submit_catch (Error message)) w))"
| "handleSubmit_resume (SubmitOk (Inl e)) w = commit (ctl w) (setState (submit_catch e) w)"
| "handleSubmit_resume (SubmitOk (Inr (Stub m))) w =
     commit (ctl w) (setState (\<lambda>c. c\<lparr>stubMessage := Some m, submitting := False\<rparr>) w)"
| "handleSubmit_resume (SubmitOk (Inr (Success opId raw))) w =
     commit (ctl w)
       (setState (\<lambda>c. c\<lparr>operationId := Some opId, operationStatus := raw,
                         submitting := False\<rparr>) w)"

subsection \<open>The image slots\<close>

text \<open>\<open>prev.map((image, idx) => idx === index ? f(image) : image)\<close>\<close>

definition update_image ::
  "nat \<Rightarrow> (ReferenceImageInput \<Rightarrow> ReferenceImageInput) \<Rightarrow> controller \<Rightarrow> controller" where
  "update_image index f c =
     c\<lparr>images := map (\<lambda>(idx, image). if idx = index then f image else image)
                       (enumerate 0 (images c))\<rparr>"

text \<open>\<open>name.replace(/\s+/g, '-')\<close>: every run of white space becomes one hyphen.\<close>

function sanitizeFilename :: "jsstring \<Rightarrow> jsstring" where
  "sanitizeFilename [] = []"
| "sanitizeFilename (c # s) =
     (if is_ws c then 45 # sanitizeFilename (dropWhile is_ws s)
      else c # sanitizeFilename s)"
  by pat_completeness auto
termination
  by (relation "measure length") (auto simp: length_dropWhile_le less_Suc_eq_le)

text \<open>
  \<open>handleImageChange\<close>.  The second argument is \<open>None\<close> for an empty file list, and
  otherwise the first file together with what \<open>readFileAsDataUrl\<close> gives for it.
\<close>

definition handleImageChange ::
  "nat \<Rightarrow> (File \<times> (exn + jsstring)) option \<Rightarrow> controller \<Rightarrow> controller" where
  "handleImageChange index fileList c =
     (case fileList of
        None \<Rightarrow>
          update_image index (\<lambda>image. image\<lparr>dataUrl := None, image_file := None, error := None\<rparr>) c
      | Some (f, read) \<Rightarrow>
          if take 6 (file_type f) \<noteq> ascii ''image/'' then
            update_image index
              (\<lambda>image. image\<lparr>error := Some (ascii ''Please choose an image file.'')\<rparr>) c
          else
            (case read of
               Inr d \<Rightarrow>
                 update_image index
                   (\<lambda>image. image\<lparr>image_file := Some f, dataUrl := Some d,
                                  name := sanitizeFilename (file_name f), error := None\<rparr>) c
             | Inl e \<Rightarrow>
                 update_image index
                   (\<lambda>image. image\<lparr>error := Some (message_or e (ascii ''Unable to read the file.''))\<rparr>)
                   c))"

definition resetImage :: "nat \<Rightarrow> controller \<Rightarrow> controller" where
  "resetImage index c =
     update_image index
       (\<lambda>image. \<lparr>image_id = image_id image,
                  name = ascii ''reference-image-'' @ decimal (index + 1),
                  dataUrl = None, image_file = None, error = None\<rparr>) c"

subsection \<open>Events\<close>

text \<open>
  Everything that can happen to the mounted component: the user edits the prompt,
  chooses or clears an image, presses the submit button; a pending submit call settles;
  an interval timer fires; a pending status query settles.  The submit button is
  disabled while \<open>submitting || !prompt.trim() || !hasImages\<close>.  An event that cannot
  happen in a state (a reply with no call pending, a tick of a timer that is not active)
  leaves the state as it is.
\<close>

datatype event =
    PromptChange jsstring
  | ImageChange nat "(File \<times> (exn + jsstring)) option"
  | ResetImage nat
  | Submit
  | SubmitReply submit_reply
  | TimerTick nat
  | PollReply nat poll_reply

fun step :: "world \<Rightarrow> event \<Rightarrow> world" where
  "step w (PromptChange p) = setState (\<lambda>c. c\<lparr>prompt := p\<rparr>) w"
| "step w (ImageChange index fileList) = setState (handleImageChange index fileList) w"
| "step w (ResetImage index) = setState (resetImage index) w"
| "step w Submit =
     (if submitting (ctl w) \<or> trim (prompt (ctl w)) = [] \<or> \<not> hasImages (ctl w) then w
      else handleSubmit w)"
| "step w (SubmitReply r) =
     (if submits_pending w = 0 then w
      else handleSubmit_resume r (w\<lparr>submits_pending := submits_pending w - 1\<rparr>))"
| "step w (TimerTick t) =
     (case map_of (timers w) t of None \<Rightarrow> w | Some captured \<Rightarrow> poll captured w)"
| "step w (PollReply i r) =
     (if i < length (polls_pending w) then
        poll_resume r
          (w\<lparr>polls_pending := take i (polls_pending w) @ drop (Suc i) (polls_pending w)\<rparr>)
      else w)"

definition run :: "world \<Rightarrow> event list \<Rightarrow> world" where
  "run w es = foldl step w es"

fun is_submission :: "event \<Rightarrow> bool" where
  "is_submission Submit = True"
| "is_submission (SubmitReply r) = True"
| "is_submission _ = False"

text \<open>
  What every reachable state satisfies: the timers that are active are exactly the one
  held by \<open>pollTimerRef\<close>, if any; a submit call is pending exactly while \<open>submitting\<close>
  is set, and then there is no \<open>operationId\<close>; and without an \<open>operationId\<close> no timer
  is held.
\<close>

definition lifecycle_inv :: "world \<Rightarrow> bool" where
  "lifecycle_inv w =
     (map fst (timers w) = (case pollTimerRef (ctl w) of None \<Rightarrow> [] | Some t \<Rightarrow> [t])
      \<and> submits_pending w = (if submitting (ctl w) then 1 else 0)
      \<and> (submitting (ctl w) \<longrightarrow> operationId (ctl w) = None)
      \<and> (operationId (ctl w) = None \<longrightarrow> pollTimerRef (ctl w) = None))"

section \<open>Example data\<close>

text \<open>A provider that answers every request with the stub result, and a status lookup
  that reports every operation as done.\<close>

definition scenario_provider :: "jsstring \<times> 'img list \<Rightarrow> exn + GenerateVideoResponse" where
  "scenario_provider request = Inr (Stub (ascii ''Set GOOGLE_GENAI_API_KEY to enable generation.''))"

definition scenario_lookup :: "jsstring \<Rightarrow> exn + json" where
  "scenario_lookup decodedId = Inr (JObj [(ascii ''name'', JStr decodedId), (ascii ''done'', JBool True)])"

text \<open>
  A session: the user types a prompt and chooses an image for the first slot; then
  presses the button and the proxy answers with an operation handle.
\<close>

definition scenario_file :: File where
  "scenario_file = \<lparr>file_name = ascii ''my cat.png'', file_type = ascii ''image/png''\<rparr>"

definition scenario_ready :: "event list" where
  "scenario_ready =
     [PromptChange (ascii ''a cat''),
      ImageChange 0 (Some (scenario_file, Inr (ascii ''data:image/png;base64,AAAA'')))]"

definition scenario_deferred :: "event list" where
  "scenario_deferred =
     scenario_ready @
     [Submit,
      SubmitReply (SubmitOk (Inr (Success (ascii ''op-123'') (JObj [(ascii ''done'', JBool False)]))))]"

section \<open>The invariant of the lifecycle\<close>

lemmas ctl_defs = setState_def clearPollTimer_def clearInterval_def setInterval_def
  poll_def poll_catch_def submit_catch_def commit_def operationIdEffect_def

lemma inv_poll_catch: "lifecycle_inv w \<Longrightarrow> lifecycle_inv (poll_catch e w)"
  by (auto simp: lifecycle_inv_def ctl_defs split: option.splits)

lemma inv_poll: "lifecycle_inv w \<Longrightarrow> lifecycle_inv (poll captured w)"
  by (auto simp: lifecycle_inv_def ctl_defs split: option.splits)

lemma inv_polls_pending: "lifecycle_inv (w\<lparr>polls_pending := ps\<rparr>) = lifecycle_inv w"
  by (simp add: lifecycle_inv_def)

lemma inv_poll_resume: "lifecycle_inv w \<Longrightarrow> lifecycle_inv (poll_resume r w)"
proof (induction r w rule: poll_resume.induct)
  case (4 status w)
  then show ?case
    by (auto simp: lifecycle_inv_def ctl_defs Let_def split: option.splits)
qed (simp_all add: inv_poll_catch)

lemma inv_handleSubmit:
  "lifecycle_inv w \<Longrightarrow> \<not> submitting (ctl w) \<Longrightarrow> lifecycle_inv (handleSubmit w)"
  by (auto simp: lifecycle_inv_def handleSubmit_def ctl_defs Let_def split: option.splits)

lemma inv_handleSubmit_resume:
  "lifecycle_inv w \<Longrightarrow> 0 < submits_pending w \<Longrightarrow>
   lifecycle_inv (handleSubmit_resume r (w\<lparr>submits_pending := submits_pending w - 1\<rparr>))"
proof (induction r w rule: handleSubmit_resume.induct)
  case (5 opId raw w)
  then show ?case
    by (auto simp: lifecycle_inv_def ctl_defs Let_def split: option.splits if_splits)
qed (auto simp: lifecycle_inv_def ctl_defs Let_def split: option.splits if_splits)

lemma inv_step: "lifecycle_inv w \<Longrightarrow> lifecycle_inv (step w e)"
proof (cases e)
  case (PromptChange p)
  assume "lifecycle_inv w"
  with PromptChange show ?thesis by (simp add: lifecycle_inv_def setState_def)
next
  case (ImageChange i f)
  assume "lifecycle_inv w"
  with ImageChange show ?thesis
    by (auto simp: lifecycle_inv_def setState_def handleImageChange_def update_image_def
             split: option.splits sum.splits)
next
  case (ResetImage i)
  assume "lifecycle_inv w"
  with ResetImage show ?thesis
    by (simp add: lifecycle_inv_def setState_def resetImage_def update_image_def)
next
  case Submit
  assume "lifecycle_inv w"
  with Submit show ?thesis by (simp add: inv_handleSubmit)
next
  case (SubmitReply r)
  assume "lifecycle_inv w"
  with SubmitReply show ?thesis using inv_handleSubmit_resume [of w r] by simp
next
  case (TimerTick t)
  assume "lifecycle_inv w"
  with TimerTick show ?thesis by (simp add: inv_poll split: option.splits)
next
  case (PollReply i r)
  assume "lifecycle_inv w"
  with PollReply show ?thesis by (simp add: inv_poll_resume inv_polls_pending)
qed

lemma inv_run: "lifecycle_inv w \<Longrightarrow> lifecycle_inv (run w es)"
  unfolding run_def by (induction es arbitrary: w) (simp_all add: inv_step)

lemma inv_initial: "lifecycle_inv initial_world"
  by (simp add: lifecycle_inv_def initial_world_def initial_controller_def)

lemma inv_reachable: "lifecycle_inv (run initial_world es)"
  by (simp add: inv_run inv_initial)

section \<open>Validation of a submission\<close>

lemma clearPollTimer_network [simp]: "network (clearPollTimer w) = network w"
  and clearPollTimer_submits [simp]: "submits_pending (clearPollTimer w) = submits_pending w"
  and clearPollTimer_polls [simp]: "polls_pending (clearPollTimer w) = polls_pending w"
  by (simp_all add: clearPollTimer_def setState_def clearInterval_def split: option.splits)

lemma clearPollTimer_ctl:
  "ctl (clearPollTimer w) = (ctl w)\<lparr>pollTimerRef := None\<rparr>"
  by (cases "ctl w") (simp add: clearPollTimer_def setState_def clearInterval_def split: option.splits)

lemma handleSubmit_rejects:
  assumes "trim (prompt (ctl w)) = [] \<or> referenceImages (ctl w) = []"
  shows "errorMessage (ctl (handleSubmit w)) =
           Some (if trim (prompt (ctl w)) = [] then ascii ''Prompt is required.''
                 else ascii ''At least one reference image is required.'')"
    and "\<not> submitting (ctl (handleSubmit w))"
    and "operationId (ctl (handleSubmit w)) = None"
    and "network (handleSubmit w) = network w"
    and "submits_pending (handleSubmit w) = submits_pending w"
    and "polls_pending (handleSubmit w) = polls_pending w"
  using assms
  by (auto simp: handleSubmit_def commit_def operationIdEffect_def submit_catch_def
                 clearPollTimer_ctl Let_def)

lemma initial_images_eval:
  "initial_images =
     [\<lparr>image_id = 0, name = ascii ''reference-image-1'', dataUrl = None, image_file = None,
       error = None\<rparr>,
      \<lparr>image_id = 1, name = ascii ''reference-image-2'', dataUrl = None, image_file = None,
       error = None\<rparr>]"
  by (simp add: initial_images_def MAX_REFERENCE_IMAGES_def upt_rec decimal.simps ascii_def)

text \<open>
  Claim C3.  When the prompt is empty after trimming, \<open>handleSubmit\<close> ends with the error
  message "Prompt is required.", with \<open>submitting\<close> cleared and no \<open>operationId\<close>, and sends
  nothing: the request log and the pending calls are as before.  The proxy's \<open>POST\<close>
  answers such a body (prompt blank or absent) with status 400 and the same text, and does
  not call the provider.
\<close>

theorem blank_prompt_rejected:
  "(trim (prompt (ctl w)) = [] \<longrightarrow>
      errorMessage (ctl (handleSubmit w)) = Some (ascii ''Prompt is required.'')
      \<and> \<not> submitting (ctl (handleSubmit w))
      \<and> operationId (ctl (handleSubmit w)) = None
      \<and> network (handleSubmit w) = network w
      \<and> submits_pending (handleSubmit w) = submits_pending w
      \<and> polls_pending (handleSubmit w) = polls_pending w)
   \<and> (trim (case body_prompt body of None \<Rightarrow> [] | Some p \<Rightarrow> p) = [] \<longrightarrow>
      POST generateVideoWithGoogle (Inr body) =
        (json_response (error_body (ascii ''Prompt is required.'')) 400, []))"
proof (intro conjI impI)
  assume "trim (case body_prompt body of None \<Rightarrow> [] | Some p \<Rightarrow> p) = []"
  then show "POST generateVideoWithGoogle (Inr body) =
        (json_response (error_body (ascii ''Prompt is required.'')) 400, [])"
    by (simp add: POST_def)
qed (simp_all add: handleSubmit_rejects)

theorem blank_prompt_rejected_witness:
  "trim (prompt (ctl (step initial_world (PromptChange (ascii ''  ''))))) = []
   \<and> trim (case body_prompt \<lparr>body_prompt = Some [32, 9, 10], body_referenceImages = Some [ascii ''data:image/png;base64,AAAA'']\<rparr> of
              None \<Rightarrow> [] | Some p \<Rightarrow> p) = []
   \<and> errorMessage (ctl (handleSubmit (step initial_world (PromptChange (ascii ''  ''))))) =
        Some (ascii ''Prompt is required.'')
   \<and> network (handleSubmit (step initial_world (PromptChange (ascii ''  '')))) = []
   \<and> POST scenario_provider (Inr \<lparr>body_prompt = Some [32, 9, 10], body_referenceImages = Some [ascii ''data:image/png;base64,AAAA'']\<rparr>) =
        (json_response (error_body (ascii ''Prompt is required.'')) 400, [])"
  using blank_prompt_rejected [of "step initial_world (PromptChange (ascii ''  ''))"
      "\<lparr>body_prompt = Some [32, 9, 10], body_referenceImages = Some [ascii ''data:image/png;base64,AAAA'']\<rparr>" scenario_provider]
  by (simp add: setState_def initial_world_def initial_controller_def trim_def is_ws_def ascii_def)

text \<open>
  Claim C4, as amended.  With no reference image, \<open>handleSubmit\<close> ends with an error
  message and sends nothing, and \<open>POST\<close> answers with status 400 without calling the
  provider.  Both check the prompt first: the text is "At least one reference image is
  required." when the prompt is not blank, and "Prompt is required." when it is.
\<close>

theorem no_images_rejected:
  "(referenceImages (ctl w) = [] \<longrightarrow>
      errorMessage (ctl (handleSubmit w)) =
        Some (if trim (prompt (ctl w)) = [] then ascii ''Prompt is required.''
              else ascii ''At least one reference image is required.'')
      \<and> \<not> submitting (ctl (handleSubmit w))
      \<and> operationId (ctl (handleSubmit w)) = None
      \<and> network (handleSubmit w) = network w
      \<and> submits_pending (handleSubmit w) = submits_pending w
      \<and> polls_pending (handleSubmit w) = polls_pending w)
   \<and> ((case body_referenceImages body of None \<Rightarrow> [] | Some xs \<Rightarrow> xs) = [] \<longrightarrow>
      POST generateVideoWithGoogle (Inr body) =
        (json_response
           (error_body
              (if trim (case body_prompt body of None \<Rightarrow> [] | Some p \<Rightarrow> p) = []
               then ascii ''Prompt is required.''
               else ascii ''At least one reference image is required.'')) 400, []))"
proof (intro conjI impI)
  assume "(case body_referenceImages body of None \<Rightarrow> [] | Some xs \<Rightarrow> xs) = []"
  then show "POST generateVideoWithGoogle (Inr body) =
        (json_response
           (error_body
              (if trim (case body_prompt body of None \<Rightarrow> [] | Some p \<Rightarrow> p) = []
               then ascii ''Prompt is required.''
               else ascii ''At least one reference image is required.'')) 400, [])"
    by (simp add: POST_def)
qed (simp_all add: handleSubmit_rejects)

theorem no_images_rejected_witness:
  "referenceImages (ctl (step initial_world (PromptChange (ascii ''a cat'')))) = []
   \<and> (case body_referenceImages
             \<lparr>body_prompt = Some (ascii ''a cat''), body_referenceImages = Some ([] :: jsstring list)\<rparr> of
         None \<Rightarrow> [] | Some xs \<Rightarrow> xs) = []
   \<and> errorMessage (ctl (handleSubmit (step initial_world (PromptChange (ascii ''a cat''))))) =
        Some (ascii ''At least one reference image is required.'')
   \<and> network (handleSubmit (step initial_world (PromptChange (ascii ''a cat'')))) = []
   \<and> POST scenario_provider
        (Inr \<lparr>body_prompt = Some (ascii ''a cat''), body_referenceImages = Some ([] :: jsstring list)\<rparr>) =
        (json_response (error_body (ascii ''At least one reference image is required.'')) 400, [])"
  using no_images_rejected [of "step initial_world (PromptChange (ascii ''a cat''))"
      "\<lparr>body_prompt = Some (ascii ''a cat''), body_referenceImages = Some ([] :: jsstring list)\<rparr>" scenario_provider]
  by (simp add: setState_def initial_world_def initial_controller_def initial_images_eval
        referenceImages_def List.map_filter_def trim_def is_ws_def ascii_def)

text \<open>
  Claim C4 as stated names the text "At least one reference image is required." for every
  request without images.  For a request whose prompt is empty as well, \<open>POST\<close> answers
  with another text.
\<close>

theorem no_images_message_counterexample:
  "http_body (fst (POST scenario_provider
      (Inr \<lparr>body_prompt = Some [], body_referenceImages = Some ([] :: jsstring list)\<rparr>))) \<noteq>
   error_body (ascii ''At least one reference image is required.'')"
  by (simp add: POST_def trim_def json_response_def error_body_def ascii_def)

section \<open>Over-long image lists\<close>

text \<open>
  Claim C10.  A body with more than four reference images is treated exactly as the body
  with its first four images; when the prompt is not blank, the provider is called once,
  with the trimmed prompt and those four images, and the answer is the provider's result
  with status 200 (or status 500 when the provider throws), never a rejection of the list.
\<close>

theorem long_image_lists_truncated:
  assumes "4 < length xs" and "body_referenceImages body = Some xs"
  shows "POST generateVideoWithGoogle (Inr body) =
           POST generateVideoWithGoogle (Inr (body\<lparr>body_referenceImages := Some (take 4 xs)\<rparr>))
         \<and> length (take 4 xs) = 4
         \<and> (trim (case body_prompt body of None \<Rightarrow> [] | Some p \<Rightarrow> p) \<noteq> [] \<longrightarrow>
              POST generateVideoWithGoogle (Inr body) =
                (let prompt = trim (case body_prompt body of None \<Rightarrow> [] | Some p \<Rightarrow> p) in
                 (case generateVideoWithGoogle (prompt, take 4 xs) of
                    Inl e \<Rightarrow>
                      json_response
                        (error_body
                           (message_or e (ascii ''Something went wrong generating the video.'')))
                        500
                  | Inr result \<Rightarrow> json_response (result_body result) 200,
                  [(prompt, take 4 xs)])))"
  using assms by (auto simp: POST_def Let_def split: sum.splits)

theorem long_image_lists_truncated_witness:
  "4 < length [1, 2, 3, 4, 5, 6 :: nat]
   \<and> trim (case body_prompt \<lparr>body_prompt = Some (ascii '' a cat ''),
                               body_referenceImages = Some [1, 2, 3, 4, 5, 6 :: nat]\<rparr> of
             None \<Rightarrow> [] | Some p \<Rightarrow> p) \<noteq> []
   \<and> POST (Inr \<circ> Stub \<circ> fst)
        (Inr \<lparr>body_prompt = Some (ascii '' a cat ''),
              body_referenceImages = Some [1, 2, 3, 4, 5, 6 :: nat]\<rparr>) =
       (json_response (result_body (Stub (ascii ''a cat''))) 200, [(ascii ''a cat'', [1, 2, 3, 4])])"
  using long_image_lists_truncated [of "[1, 2, 3, 4, 5, 6 :: nat]"
      "\<lparr>body_prompt = Some (ascii '' a cat ''), body_referenceImages = Some [1, 2, 3, 4, 5, 6 :: nat]\<rparr>"
      "Inr \<circ> Stub \<circ> fst", THEN conjunct2]
  by (simp add: trim_def is_ws_def ascii_def Let_def)

section \<open>The status endpoint\<close>

lemma continuation_numeral:
  "continuation (numeral k) s =
     (case s of
        [] \<Rightarrow> None
      | p # s' \<Rightarrow>
          if p \<noteq> 37 then None
          else case ParseHexOctet s' of
                 None \<Rightarrow> None
               | Some b \<Rightarrow>
                   (case continuation (pred_numeral k) (drop 2 s') of
                      None \<Rightarrow> None
                    | Some (bs, r) \<Rightarrow> Some (b # bs, r)))"
  by (cases s) (simp_all add: numeral_eq_Suc)

lemmas decode_eval = continuation_numeral ascii_def hexval_def leading_ones_def is_cont_def
  UTF16EncodeCodePoint_def decodeURIComponent_def URIError_message_def

text \<open>
  Claim C7.  For the empty handle \<open>GET\<close> answers 400 with "operationId is required" and
  does not call the status lookup.  For a non-empty handle the lookup is only ever called
  with the URL-decoded handle: once when the handle decodes, and not at all when decoding
  throws (the answer is then 500).
\<close>

theorem status_handle_checked_and_decoded:
  "GET getOperationStatus [] =
     (json_response (error_body (ascii ''operationId is required'')) 400, [])
   \<and> (handle \<noteq> [] \<longrightarrow>
        snd (GET getOperationStatus handle) =
          (case decodeURIComponent handle of Inl e \<Rightarrow> [] | Inr decodedId \<Rightarrow> [decodedId])
        \<and> fst (GET getOperationStatus handle) =
          (case decodeURIComponent handle of
             Inl e \<Rightarrow> json_response (error_body URIError_message) 500
           | Inr decodedId \<Rightarrow>
               (case getOperationStatus decodedId of
                  Inl e \<Rightarrow>
                    json_response
                      (error_body
                         (message_or e (ascii ''Something went wrong querying operation status.'')))
                      500
                | Inr status \<Rightarrow> json_response status 200)))"
  by (auto simp: GET_def decodeURIComponent_def split: option.splits sum.splits)

theorem status_handle_checked_and_decoded_witness:
  "ascii ''operations%2Fop-123'' \<noteq> []
   \<and> GET scenario_lookup [] =
       (json_response (error_body (ascii ''operationId is required'')) 400, [])
   \<and> snd (GET scenario_lookup (ascii ''operations%2Fop-123'')) = [ascii ''operations/op-123'']
   \<and> http_status (fst (GET scenario_lookup (ascii ''operations%2Fop-123''))) = 200"
  using status_handle_checked_and_decoded [of scenario_lookup "ascii ''operations%2Fop-123''"]
  by (simp add: decode_eval scenario_lookup_def json_response_def)

section \<open>Cancellation\<close>

text \<open>
  Claim C9.  Cancelling is the block that clears the interval held by \<open>pollTimerRef\<close> and
  resets the reference; the effect runs it whenever \<open>operationId\<close> becomes \<open>null\<close>.  Running
  it a second time changes nothing: the state after two runs is the state after one,
  timer handle and active timers included.
\<close>

theorem cancel_idempotent:
  "clearPollTimer (clearPollTimer w) = clearPollTimer w
   \<and> (operationId (ctl w) = None \<longrightarrow>
        operationIdEffect (operationIdEffect w) = operationIdEffect w)"
  by (simp add: operationIdEffect_def clearPollTimer_def setState_def clearInterval_def
           split: option.splits)


theorem cancel_idempotent_witness:
  "operationId (ctl (initial_world\<lparr>ctl := initial_controller\<lparr>pollTimerRef := Some 1\<rparr>,
                                    timers := [(1, ascii ''op-123'')]\<rparr>)) = None
   \<and> timers (clearPollTimer (initial_world\<lparr>ctl := initial_controller\<lparr>pollTimerRef := Some 1\<rparr>,
                                             timers := [(1, ascii ''op-123'')]\<rparr>)) = []
   \<and> clearPollTimer (clearPollTimer
         (initial_world\<lparr>ctl := initial_controller\<lparr>pollTimerRef := Some 1\<rparr>,
                        timers := [(1, ascii ''op-123'')]\<rparr>)) =
       clearPollTimer (initial_world\<lparr>ctl := initial_controller\<lparr>pollTimerRef := Some 1\<rparr>,
                                     timers := [(1, ascii ''op-123'')]\<rparr>)
   \<and> operationIdEffect (operationIdEffect
         (initial_world\<lparr>ctl := initial_controller\<lparr>pollTimerRef := Some 1\<rparr>,
                        timers := [(1, ascii ''op-123'')]\<rparr>)) =
       operationIdEffect (initial_world\<lparr>ctl := initial_controller\<lparr>pollTimerRef := Some 1\<rparr>,
                                        timers := [(1, ascii ''op-123'')]\<rparr>)"
  using cancel_idempotent
    [of "initial_world\<lparr>ctl := initial_controller\<lparr>pollTimerRef := Some 1\<rparr>,
                       timers := [(1, ascii ''op-123'')]\<rparr>"]
  by (simp add: initial_world_def initial_controller_def clearPollTimer_def setState_def
        clearInterval_def)


section \<open>The polling lifecycle\<close>

subsection \<open>What the exits of \<open>poll\<close> change\<close>

lemma clearPollTimer_timers_inv:
  "lifecycle_inv w \<Longrightarrow> timers (clearPollTimer w) = []"
  by (cases "timers w")
     (auto simp: lifecycle_inv_def clearPollTimer_def setState_def clearInterval_def
           split: option.splits)

lemma clearPollTimer_timers_empty:
  "timers w = [] \<Longrightarrow> timers (clearPollTimer w) = []"
  by (simp add: clearPollTimer_def setState_def clearInterval_def split: option.splits)

lemma poll_catch_frame [simp]:
  "network (poll_catch e w) = network w"
  "submits_pending (poll_catch e w) = submits_pending w"
  "polls_pending (poll_catch e w) = polls_pending w"
  by (simp_all add: poll_catch_def setState_def)

lemma poll_catch_ctl:
  "ctl (poll_catch e w) =
     (ctl w)\<lparr>polling := False,
             errorMessage := Some (message_or e (ascii ''Failed to poll operation.'')),
             pollTimerRef := None\<rparr>"
  by (simp add: poll_catch_def clearPollTimer_ctl setState_def)

lemma poll_catch_timers_inv: "lifecycle_inv w \<Longrightarrow> timers (poll_catch e w) = []"
  unfolding poll_catch_def
  by (rule clearPollTimer_timers_inv) (simp add: lifecycle_inv_def setState_def)

lemma poll_catch_timers_empty: "timers w = [] \<Longrightarrow> timers (poll_catch e w) = []"
  unfolding poll_catch_def
  by (rule clearPollTimer_timers_empty) (simp add: setState_def)

lemma poll_resume_network [simp]: "network (poll_resume r w) = network w"
  by (induction r w rule: poll_resume.induct) (simp_all add: Let_def setState_def)

lemma poll_resume_timers_empty: "timers w = [] \<Longrightarrow> timers (poll_resume r w) = []"
  by (induction r w rule: poll_resume.induct)
     (simp_all add: Let_def setState_def poll_catch_timers_empty clearPollTimer_timers_empty)

lemma quiet_step:
  assumes "timers w = []" and "\<not> is_submission e"
  shows "timers (step w e) = [] \<and> network (step w e) = network w"
  using assms
  by (cases e) (simp_all add: setState_def poll_resume_timers_empty)

lemma quiet_run:
  assumes "timers w = []" and "list_all (\<lambda>e. \<not> is_submission e) es"
  shows "timers (run w es) = [] \<and> network (run w es) = network w"
  using assms unfolding run_def
proof (induction es arbitrary: w)
  case Nil
  then show ?case by simp
next
  case (Cons e es)
  from Cons.prems have q: "timers (step w e) = [] \<and> network (step w e) = network w"
    by (simp add: quiet_step)
  with Cons.IH [of "step w e"] Cons.prems show ?case by simp
qed

lemma done_reply:
  assumes "lifecycle_inv w" and "truthy (get_prop status (ascii ''done''))"
  shows "ctl (poll_resume (PollOk (Inr status)) w) =
           (ctl w)\<lparr>operationStatus := status, pollTimerRef := None, polling := False\<rparr>"
    and "timers (poll_resume (PollOk (Inr status)) w) = []"
proof -
  from assms(2) have nn: "status \<noteq> JNull" by (cases status) auto
  let ?w1 = "setState (\<lambda>c. c\<lparr>operationStatus := status\<rparr>) w"
  have i1: "lifecycle_inv ?w1" using assms(1) by (simp add: lifecycle_inv_def setState_def)
  show "ctl (poll_resume (PollOk (Inr status)) w) =
           (ctl w)\<lparr>operationStatus := status, pollTimerRef := None, polling := False\<rparr>"
    using nn assms(2) by (simp add: Let_def clearPollTimer_ctl setState_def)
  show "timers (poll_resume (PollOk (Inr status)) w) = []"
    using nn assms(2) clearPollTimer_timers_inv [OF i1] by (simp add: Let_def setState_def)
qed

lemma deferred_reply:
  assumes "lifecycle_inv w" and "0 < submits_pending w"
    and "opId \<noteq> []" and "well_formed_utf16 opId"
  shows "step w (SubmitReply (SubmitOk (Inr (Success opId raw)))) =
     w\<lparr>ctl := (ctl w)\<lparr>operationId := Some opId, operationStatus := raw, submitting := False,
                      polling := True, pollTimerRef := Some (next_timer w)\<rparr>,
       submits_pending := 0,
       polls_pending := polls_pending w @ [opId],
       network := network w @ [StatusQuery opId],
       timers := [(next_timer w, opId)],
       next_timer := Suc (next_timer w)\<rparr>"
  using assms
  by (cases "timers w")
     (auto simp: lifecycle_inv_def ctl_defs Let_def split: if_splits)

lemma hasImages_referenceImages: "hasImages c \<Longrightarrow> referenceImages c \<noteq> []"
proof -
  have "list_ex (\<lambda>image. case dataUrl image of None \<Rightarrow> False | Some d \<Rightarrow> d \<noteq> []) xs \<Longrightarrow>
        List.map_filter
          (\<lambda>image. case dataUrl image of
                      None \<Rightarrow> None
                    | Some d \<Rightarrow> if d \<noteq> [] then Some (name image, d) else None) xs \<noteq> []" for xs
    by (induction xs) (auto simp: List.map_filter_simps split: option.splits)
  then show "hasImages c \<Longrightarrow> referenceImages c \<noteq> []"
    by (simp add: hasImages_def referenceImages_def)
qed

lemma poll_catch_keeps:
  "operationId (ctl (poll_catch e w)) = operationId (ctl w)"
  "stubMessage (ctl (poll_catch e w)) = stubMessage (ctl w)"
  "submitting (ctl (poll_catch e w)) = submitting (ctl w)"
  by (simp_all add: poll_catch_ctl)

lemma poll_resume_keeps:
  "operationId (ctl (poll_resume r w)) = operationId (ctl w)
   \<and> stubMessage (ctl (poll_resume r w)) = stubMessage (ctl w)
   \<and> submitting (ctl (poll_resume r w)) = submitting (ctl w)
   \<and> submits_pending (poll_resume r w) = submits_pending w"
  by (induction r w rule: poll_resume.induct)
     (simp_all add: Let_def setState_def poll_catch_ctl clearPollTimer_ctl)

lemma poll_keeps:
  "operationId (ctl (poll captured w)) = operationId (ctl w)
   \<and> stubMessage (ctl (poll captured w)) = stubMessage (ctl w)
   \<and> submitting (ctl (poll captured w)) = submitting (ctl w)
   \<and> submits_pending (poll captured w) = submits_pending w"
  by (simp add: poll_def poll_catch_ctl)

lemma step_keeps:
  assumes "\<not> is_submission e"
  shows "operationId (ctl (step w e)) = operationId (ctl w)
   \<and> stubMessage (ctl (step w e)) = stubMessage (ctl w)
   \<and> submitting (ctl (step w e)) = submitting (ctl w)
   \<and> submits_pending (step w e) = submits_pending w"
proof (cases e)
  case (ImageChange index fileList)
  then show ?thesis
    by (auto simp: setState_def handleImageChange_def update_image_def
             split: option.splits sum.splits)
next
  case (TimerTick t)
  then show ?thesis by (simp add: poll_keeps split: option.splits)
next
  case (PollReply i r)
  then show ?thesis by (simp add: poll_resume_keeps)
qed (use assms in \<open>simp_all add: setState_def resetImage_def update_image_def\<close>)

lemma run_keeps:
  assumes "list_all (\<lambda>e. \<not> is_submission e) es"
  shows "operationId (ctl (run w es)) = operationId (ctl w)
   \<and> stubMessage (ctl (run w es)) = stubMessage (ctl w)
   \<and> submitting (ctl (run w es)) = submitting (ctl w)
   \<and> submits_pending (run w es) = submits_pending w"
  using assms unfolding run_def
proof (induction es arbitrary: w)
  case Nil
  then show ?case by simp
next
  case (Cons e es)
  then show ?case using step_keeps [of e w] by simp
qed

text \<open>
  With no timer active and no status query pending, nothing but a submission touches the
  polling flag or the error message.
\<close>

lemma idle_step:
  assumes "timers w = []" and "polls_pending w = []" and "\<not> is_submission e"
  shows "polls_pending (step w e) = []
   \<and> polling (ctl (step w e)) = polling (ctl w)
   \<and> errorMessage (ctl (step w e)) = errorMessage (ctl w)"
proof (cases e)
  case (ImageChange index fileList)
  then show ?thesis using assms(2)
    by (auto simp: setState_def handleImageChange_def update_image_def
             split: option.splits sum.splits)
qed (use assms in \<open>simp_all add: setState_def resetImage_def update_image_def\<close>)

lemma idle_run:
  assumes "timers w = []" and "polls_pending w = []"
    and "list_all (\<lambda>e. \<not> is_submission e) es"
  shows "polls_pending (run w es) = []
   \<and> polling (ctl (run w es)) = polling (ctl w)
   \<and> errorMessage (ctl (run w es)) = errorMessage (ctl w)"
  using assms unfolding run_def
proof (induction es arbitrary: w)
  case Nil
  then show ?case by simp
next
  case (Cons e es)
  from Cons.prems have q: "timers (step w e) = []" by (simp add: quiet_step)
  from Cons.prems have i: "polls_pending (step w e) = []
     \<and> polling (ctl (step w e)) = polling (ctl w)
     \<and> errorMessage (ctl (step w e)) = errorMessage (ctl w)"
    by (simp add: idle_step)
  with Cons.IH [of "step w e"] q Cons.prems show ?case by simp
qed

subsection \<open>The example session, evaluated\<close>

lemmas scenario_eval = run_def initial_world_def initial_controller_def initial_images_eval
  setState_def handleImageChange_def update_image_def hasImages_def referenceImages_def
  List.map_filter_def handleSubmit_def ctl_defs Let_def trim_def is_ws_def ascii_def
  is_high_surrogate_def is_low_surrogate_def scenario_file_def

lemma scenario_ready_world:
  "run initial_world scenario_ready =
     \<lparr>ctl = \<lparr>prompt = ascii ''a cat'',
              images =
                [\<lparr>image_id = 0, name = ascii ''my-cat.png'',
                  dataUrl = Some (ascii ''data:image/png;base64,AAAA''),
                  image_file = Some scenario_file, error = None\<rparr>,
                 \<lparr>image_id = 1, name = ascii ''reference-image-2'', dataUrl = None,
                  image_file = None, error = None\<rparr>],
              submitting = False, errorMessage = None, stubMessage = None, operationId = None,
              operationStatus = JNull, polling = False, pollTimerRef = None\<rparr>,
      timers = [], next_timer = 1, submits_pending = 0, polls_pending = [], network = []\<rparr>"
  by (simp add: scenario_ready_def scenario_eval)

lemma scenario_deferred_world:
  "run initial_world scenario_deferred =
     \<lparr>ctl = \<lparr>prompt = ascii ''a cat'',
              images =
                [\<lparr>image_id = 0, name = ascii ''my-cat.png'',
                  dataUrl = Some (ascii ''data:image/png;base64,AAAA''),
                  image_file = Some scenario_file, error = None\<rparr>,
                 \<lparr>image_id = 1, name = ascii ''reference-image-2'', dataUrl = None,
                  image_file = None, error = None\<rparr>],
              submitting = False, errorMessage = None, stubMessage = None,
              operationId = Some (ascii ''op-123''),
              operationStatus = JObj [(ascii ''done'', JBool False)],
              polling = True, pollTimerRef = Some 1\<rparr>,
      timers = [(1, ascii ''op-123'')], next_timer = 2, submits_pending = 0,
      polls_pending = [ascii ''op-123''],
      network = [SubmitCall (ascii ''a cat'')
                   [(ascii ''my-cat.png'', ascii ''data:image/png;base64,AAAA'')],
                 StatusQuery (ascii ''op-123'')]\<rparr>"
  by (simp add: scenario_deferred_def scenario_ready_def scenario_eval)

lemma scenario_submitted_world:
  "run initial_world (scenario_ready @ [Submit]) =
     \<lparr>ctl = \<lparr>prompt = ascii ''a cat'',
              images =
                [\<lparr>image_id = 0, name = ascii ''my-cat.png'',
                  dataUrl = Some (ascii ''data:image/png;base64,AAAA''),
                  image_file = Some scenario_file, error = None\<rparr>,
                 \<lparr>image_id = 1, name = ascii ''reference-image-2'', dataUrl = None,
                  image_file = None, error = None\<rparr>],
              submitting = True, errorMessage = None, stubMessage = None, operationId = None,
              operationStatus = JNull, polling = False, pollTimerRef = None\<rparr>,
      timers = [], next_timer = 1, submits_pending = 1, polls_pending = [],
      network = [SubmitCall (ascii ''a cat'')
                   [(ascii ''my-cat.png'', ascii ''data:image/png;base64,AAAA'')]]\<rparr>"
  by (simp add: scenario_ready_def scenario_eval)

lemma run_snoc: "run w (es @ [e]) = step (run w es) e"
  by (simp add: run_def)

lemma run_Cons: "run w (e # es) = run (step w e) es"
  by (simp add: run_def)

lemma run_Nil: "run w [] = w"
  by (simp add: run_def)

lemmas world_eval = setState_def ctl_defs Let_def ascii_def is_high_surrogate_def
  is_low_surrogate_def run_Cons run_Nil

subsection \<open>Completion\<close>

text \<open>
  Claim C1.  Take any history of events, a submit call that is pending after it, and a
  reply to it that carries an operation handle (if the handle is a non-empty well-formed
  string, the reply stores it with the raw status, sets \<open>polling\<close>, sends the first
  status query and starts the timer).  After any further events, a status reply whose
  \<open>done\<close> is true (more generally, truthy) is stored as the last status, clears
  \<open>polling\<close>, and clears the timer, so that no timer is active; and from then on, as
  long as no new submission is made, no request is sent.
\<close>

theorem deferred_done_completes:
  assumes "w0 = run initial_world es"
    and "0 < submits_pending w0"
    and "w1 = step w0 (SubmitReply (SubmitOk (Inr (Success opId raw))))"
    and "w2 = run w1 mid"
    and "i < length (polls_pending w2)"
    and "truthy (get_prop status (ascii ''done''))"
    and "w3 = step w2 (PollReply i (PollOk (Inr status)))"
    and "list_all (\<lambda>e. \<not> is_submission e) later"
  shows "(opId \<noteq> [] \<and> well_formed_utf16 opId \<longrightarrow>
            operationId (ctl w1) = Some opId \<and> operationStatus (ctl w1) = raw
            \<and> polling (ctl w1) \<and> pollTimerRef (ctl w1) \<noteq> None
            \<and> polls_pending w1 = polls_pending w0 @ [opId])
         \<and> \<not> polling (ctl w3) \<and> operationStatus (ctl w3) = status
         \<and> pollTimerRef (ctl w3) = None \<and> timers w3 = []
         \<and> network (run w3 later) = network w2 \<and> timers (run w3 later) = []"
proof -
  have inv0: "lifecycle_inv w0" using assms(1) by (simp add: inv_reachable)
  have inv1: "lifecycle_inv w1" unfolding assms(3) using inv0 by (rule inv_step)
  have inv2: "lifecycle_inv w2" unfolding assms(4) using inv1 by (rule inv_run)
  let ?v = "w2\<lparr>polls_pending := take i (polls_pending w2) @ drop (Suc i) (polls_pending w2)\<rparr>"
  have invv: "lifecycle_inv ?v" using inv2 by (simp add: inv_polls_pending)
  have w3: "w3 = poll_resume (PollOk (Inr status)) ?v" using assms(5,7) by simp
  have c3: "ctl w3 = (ctl w2)\<lparr>operationStatus := status, pollTimerRef := None, polling := False\<rparr>"
    unfolding w3 using done_reply(1) [OF invv assms(6)] by simp
  have t3: "timers w3 = []" unfolding w3 by (rule done_reply(2) [OF invv assms(6)])
  have n3: "network w3 = network w2"
    unfolding w3 using poll_resume_network [of "PollOk (Inr status)" ?v] by simp
  have first: "opId \<noteq> [] \<and> well_formed_utf16 opId \<longrightarrow>
            operationId (ctl w1) = Some opId \<and> operationStatus (ctl w1) = raw
            \<and> polling (ctl w1) \<and> pollTimerRef (ctl w1) \<noteq> None
            \<and> polls_pending w1 = polls_pending w0 @ [opId]"
    unfolding assms(3) using deferred_reply [OF inv0 assms(2), of opId raw] by simp
  from quiet_run [OF t3 assms(8)] n3 c3 t3 first show ?thesis by simp
qed

theorem deferred_done_completes_witness:
  "0 < submits_pending (run initial_world (scenario_ready @ [Submit]))
   \<and> 0 < length (polls_pending (run initial_world (scenario_deferred @ [TimerTick 1])))
   \<and> truthy (get_prop (JObj [(ascii ''done'', JBool True)]) (ascii ''done''))
   \<and> polling (ctl (run initial_world scenario_deferred))
   \<and> polls_pending (run initial_world (scenario_deferred @ [TimerTick 1])) =
       [ascii ''op-123'', ascii ''op-123'']
   \<and> \<not> polling (ctl (run initial_world
         (scenario_deferred @
          [TimerTick 1, PollReply 0 (PollOk (Inr (JObj [(ascii ''done'', JBool True)])))])))
   \<and> timers (run initial_world
         (scenario_deferred @
          [TimerTick 1, PollReply 0 (PollOk (Inr (JObj [(ascii ''done'', JBool True)])))])) = []
   \<and> network (run initial_world
         (scenario_deferred @
          [TimerTick 1, PollReply 0 (PollOk (Inr (JObj [(ascii ''done'', JBool True)]))),
           TimerTick 1, PollReply 0 (PollOk (Inr (JObj [(ascii ''done'', JBool False)])))])) =
       network (run initial_world (scenario_deferred @ [TimerTick 1]))"
proof -
  have s: "run initial_world (scenario_ready @ [Submit]) = run initial_world (scenario_ready @ [Submit])" ..
  have h2: "0 < submits_pending (run initial_world (scenario_ready @ [Submit]))"
    by (simp add: scenario_submitted_world)
  have d: "step (run initial_world (scenario_ready @ [Submit]))
             (SubmitReply (SubmitOk (Inr (Success (ascii ''op-123'')
                (JObj [(ascii ''done'', JBool False)]))))) = run initial_world scenario_deferred"
    by (simp add: scenario_deferred_def run_def del: step.simps)
  have h5: "0 < length (polls_pending (run (run initial_world scenario_deferred) [TimerTick 1]))"
    by (simp add: scenario_deferred_world world_eval)
  have h6: "truthy (get_prop (JObj [(ascii ''done'', JBool True)]) (ascii ''done''))"
    by (simp add: ascii_def)
  have h8: "list_all (\<lambda>e. \<not> is_submission e)
              [TimerTick 1, PollReply 0 (PollOk (Inr (JObj [(ascii ''done'', JBool False)])))]"
    by simp
  note t = deferred_done_completes
    [OF refl h2 d [symmetric] refl h5 h6 refl h8]
  have r: "run initial_world (scenario_deferred @ es) = run (run initial_world scenario_deferred) es" for es
    by (simp add: run_def)
  from t h2 h6 show ?thesis
    unfolding r by (simp add: scenario_deferred_world world_eval)
qed

subsection \<open>A failed status query\<close>

text \<open>
  Claim C2, as amended.  After any history of events, a pending status query that fails
  (the \<open>fetch\<close> rejects, or the response is not ok) clears \<open>polling\<close>, stores the error
  message, clears the timer so that no timer is active, and from then on, as long as no
  new submission is made, no request is sent.  The stored \<open>operationId\<close> is kept.
\<close>

theorem poll_failure_stops:
  assumes "w = run initial_world es"
    and "i < length (polls_pending w)"
    and "r = PollRejected e \<and> m = message_or e (ascii ''Failed to poll operation.'')
         \<or> r = PollNotOk st \<and> m = ascii ''Polling failed with '' @ decimal st"
    and "w' = step w (PollReply i r)"
    and "list_all (\<lambda>e. \<not> is_submission e) later"
  shows "\<not> polling (ctl w') \<and> errorMessage (ctl w') = Some m
         \<and> pollTimerRef (ctl w') = None \<and> timers w' = []
         \<and> operationId (ctl w') = operationId (ctl w)
         \<and> network (run w' later) = network w \<and> timers (run w' later) = []"
proof -
  let ?v = "w\<lparr>polls_pending := take i (polls_pending w) @ drop (Suc i) (polls_pending w)\<rparr>"
  have invv: "lifecycle_inv ?v" using assms(1) by (simp add: inv_polls_pending inv_reachable)
  from assms(3) consider
      (rejected) "r = PollRejected e" "m = message_or e (ascii ''Failed to poll operation.'')"
    | (not_ok) "r = PollNotOk st" "m = ascii ''Polling failed with '' @ decimal st"
    by blast
  then obtain x where w': "w' = poll_catch x ?v"
    and m: "m = message_or x (ascii ''Failed to poll operation.'')"
  proof cases
    case rejected
    then show ?thesis using that [of e] assms(2,4) by simp
  next
    case not_ok
    then show ?thesis
      using that [of "Error (ascii ''Polling failed with '' @ decimal st)"] assms(2,4) by simp
  qed
  have t: "timers w' = []" unfolding w' by (rule poll_catch_timers_inv [OF invv])
  have n: "network w' = network w" unfolding w' by simp
  have c: "ctl w' = (ctl w)\<lparr>polling := False, errorMessage := Some m, pollTimerRef := None\<rparr>"
    unfolding w' m by (simp add: poll_catch_ctl)
  from quiet_run [OF t assms(5)] t n c show ?thesis by simp
qed

theorem poll_failure_stops_witness:
  "0 < length (polls_pending (run initial_world scenario_deferred))
   \<and> list_all (\<lambda>e. \<not> is_submission e) [TimerTick 1]
   \<and> errorMessage (ctl (step (run initial_world scenario_deferred) (PollReply 0 (PollNotOk 500)))) =
       Some (ascii ''Polling failed with 500'')
   \<and> \<not> polling (ctl (step (run initial_world scenario_deferred) (PollReply 0 (PollNotOk 500))))
   \<and> timers (step (run initial_world scenario_deferred) (PollReply 0 (PollNotOk 500))) = []
   \<and> operationId (ctl (step (run initial_world scenario_deferred) (PollReply 0 (PollNotOk 500)))) =
       Some (ascii ''op-123'')
   \<and> network (run (step (run initial_world scenario_deferred) (PollReply 0 (PollNotOk 500)))
               [TimerTick 1]) =
       network (run initial_world scenario_deferred)"
proof -
  have h2: "0 < length (polls_pending (run initial_world scenario_deferred))"
    by (simp add: scenario_deferred_world)
  have h3: "PollNotOk 500 = PollRejected NonError
              \<and> ascii ''Polling failed with 500'' =
                  message_or NonError (ascii ''Failed to poll operation.'')
            \<or> PollNotOk 500 = PollNotOk 500
              \<and> ascii ''Polling failed with 500'' = ascii ''Polling failed with '' @ decimal 500"
    by (simp add: decimal.simps ascii_def)
  have h5: "list_all (\<lambda>e. \<not> is_submission e) [TimerTick 1]" by simp
  from poll_failure_stops [OF refl h2 h3 refl h5] h2 h5 show ?thesis
    by (simp add: scenario_deferred_world)
qed

text \<open>
  Claim C2 as stated has the \<open>operationId\<close> discarded.  In the example session, after the
  status query is answered with status 500, the handle is still stored.
\<close>

theorem poll_failure_keeps_operationId_counterexample:
  "operationId (ctl (run initial_world (scenario_deferred @ [PollReply 0 (PollNotOk 500)]))) =
     Some (ascii ''op-123'')"
  by (simp add: run_snoc scenario_deferred_world world_eval)

subsection \<open>Outstanding status queries\<close>

text \<open>
  Claim C5, as amended.  After any history of events at most one interval timer is
  active, and every tick of it sends a status query for the handle it captured, whether
  or not earlier status queries are still pending: the new query is appended to the
  pending ones.
\<close>

theorem ticks_issue_queries:
  assumes "w = run initial_world es"
  shows "length (timers w) \<le> 1
         \<and> ((t, captured) \<in> set (timers w) \<and> well_formed_utf16 captured \<longrightarrow>
              polls_pending (step w (TimerTick t)) = polls_pending w @ [captured]
              \<and> network (step w (TimerTick t)) = network w @ [StatusQuery captured]
              \<and> timers (step w (TimerTick t)) = timers w)"
proof -
  have inv: "lifecycle_inv w" using assms by (simp add: inv_reachable)
  then have "length (map fst (timers w)) \<le> 1"
    by (simp add: lifecycle_inv_def split: option.splits)
  then have len: "length (timers w) \<le> 1" by simp
  have "map_of (timers w) t = Some captured" if "(t, captured) \<in> set (timers w)"
    using that len by (cases "timers w") auto
  then show ?thesis using len by (auto simp: poll_def)
qed

theorem ticks_issue_queries_witness:
  "(1, ascii ''op-123'') \<in> set (timers (run initial_world scenario_deferred))
   \<and> well_formed_utf16 (ascii ''op-123'')
   \<and> length (timers (run initial_world scenario_deferred)) \<le> 1
   \<and> polls_pending (step (run initial_world scenario_deferred) (TimerTick 1)) =
       polls_pending (run initial_world scenario_deferred) @ [ascii ''op-123'']"
  using ticks_issue_queries [OF refl, of scenario_deferred 1 "ascii ''op-123''"]
  by (simp add: scenario_deferred_world world_eval)

text \<open>
  Claim C5 as stated allows one pending status query at most.  In the example session the
  first query is sent when polling starts; when the timer fires before its reply, a second
  one is pending.
\<close>

theorem two_queries_outstanding_counterexample:
  "polls_pending (run initial_world (scenario_deferred @ [TimerTick 1])) =
     [ascii ''op-123'', ascii ''op-123'']"
  by (simp add: run_snoc scenario_deferred_world world_eval)

subsection \<open>The stub result\<close>

text \<open>
  Claim C6, as amended.  After any history of events, when the button is enabled and
  pressed, and the proxy answers with the stub result, then the message is stored,
  \<open>submitting\<close> is cleared, there is no \<open>operationId\<close> and no timer, and the only request
  sent since the button was pressed is the submit call itself: no status query, neither
  before the reply nor after it, as long as no new submission is made.  When, as the
  button is pressed, \<open>polling\<close> is clear and no status query of an earlier operation is
  pending, the state is final as well: \<open>polling\<close> stays clear and no error message
  appears until a new submission is made.
\<close>

theorem stub_reply_completes_without_polling:
  assumes "w = run initial_world es"
    and "\<not> submitting (ctl w)" and "trim (prompt (ctl w)) \<noteq> []" and "hasImages (ctl w)"
    and "list_all (\<lambda>e. \<not> is_submission e) mid"
    and "w' = step (run (step w Submit) mid) (SubmitReply (SubmitOk (Inr (Stub m))))"
    and "list_all (\<lambda>e. \<not> is_submission e) later"
  shows "stubMessage (ctl w') = Some m \<and> \<not> submitting (ctl w')
         \<and> operationId (ctl w') = None \<and> pollTimerRef (ctl w') = None \<and> timers w' = []
         \<and> network w' = network w @ [SubmitCall (prompt (ctl w)) (referenceImages (ctl w))]
         \<and> network (run w' later) = network w'
         \<and> stubMessage (ctl (run w' later)) = Some m
         \<and> operationId (ctl (run w' later)) = None
         \<and> (\<not> polling (ctl w) \<and> polls_pending w = [] \<longrightarrow>
               \<not> polling (ctl w') \<and> errorMessage (ctl w') = None
               \<and> \<not> polling (ctl (run w' later)) \<and> errorMessage (ctl (run w' later)) = None)"
proof -
  define w1 where "w1 = step w Submit"
  define w2 where "w2 = run w1 mid"
  have inv: "lifecycle_inv w" using assms(1) by (simp add: inv_reachable)
  have inv1: "lifecycle_inv w1" unfolding w1_def using inv by (rule inv_step)
  have ri: "referenceImages (ctl w) \<noteq> []" using assms(4) by (rule hasImages_referenceImages)
  have w1: "w1 = handleSubmit w" unfolding w1_def using assms(2,3,4) by simp
  have o1: "operationId (ctl w1) = None" and s1: "submitting (ctl w1)"
    and n1: "network w1 = network w @ [SubmitCall (prompt (ctl w)) (referenceImages (ctl w))]"
    and f1: "polls_pending w1 = polls_pending w" "polling (ctl w1) = polling (ctl w)"
      "errorMessage (ctl w1) = None"
    unfolding w1 using ri assms(3)
    by (simp_all add: handleSubmit_def commit_def operationIdEffect_def clearPollTimer_ctl Let_def)
  have p1: "submits_pending w1 = 1" using inv1 s1 by (simp add: lifecycle_inv_def)
  have t1: "timers w1 = []" using inv1 o1 by (auto simp: lifecycle_inv_def)
  have k2: "operationId (ctl w2) = None" "submits_pending w2 = 1"
    unfolding w2_def using run_keeps [OF assms(5), of w1] o1 p1 by simp_all
  have q2: "timers w2 = []" "network w2 = network w1"
    unfolding w2_def using quiet_run [OF t1 assms(5)] by simp_all
  have inv2: "lifecycle_inv w2" unfolding w2_def using inv1 by (rule inv_run)
  have r2: "pollTimerRef (ctl w2) = None" using inv2 k2(1) by (simp add: lifecycle_inv_def)
  have w': "w' = (w2\<lparr>submits_pending := 0\<rparr>)\<lparr>ctl := (ctl w2)\<lparr>stubMessage := Some m, submitting := False\<rparr>\<rparr>"
    unfolding assms(6) w1_def [symmetric] w2_def [symmetric]
    using k2(2) by (simp add: commit_def setState_def)
  have a: "stubMessage (ctl w') = Some m" "\<not> submitting (ctl w')" "operationId (ctl w') = None"
    "pollTimerRef (ctl w') = None" "timers w' = []" "network w' = network w1"
    unfolding w' using k2 q2 r2 by simp_all
  have final: "\<not> polling (ctl w') \<and> errorMessage (ctl w') = None
               \<and> \<not> polling (ctl (run w' later)) \<and> errorMessage (ctl (run w' later)) = None"
    if idle: "\<not> polling (ctl w)" "polls_pending w = []"
  proof -
    have i1: "polls_pending w1 = []" "\<not> polling (ctl w1)" using f1 idle by simp_all
    have i2: "polls_pending w2 = []" "\<not> polling (ctl w2)" "errorMessage (ctl w2) = None"
      unfolding w2_def using idle_run [OF t1 i1(1) assms(5)] i1(2) f1(3) by simp_all
    have i3: "polls_pending w' = []" "\<not> polling (ctl w')" "errorMessage (ctl w') = None"
      unfolding w' using i2 by simp_all
    from idle_run [OF a(5) i3(1) assms(7)] i3 show ?thesis by simp
  qed
  from quiet_run [OF a(5) assms(7)] run_keeps [OF assms(7), of w'] a n1 final
  show ?thesis by simp
qed

theorem stub_reply_completes_without_polling_witness:
  "\<not> submitting (ctl (run initial_world scenario_ready))
   \<and> trim (prompt (ctl (run initial_world scenario_ready))) \<noteq> []
   \<and> hasImages (ctl (run initial_world scenario_ready))
   \<and> list_all (\<lambda>e. \<not> is_submission e) [PromptChange (ascii ''a dog'')]
   \<and> list_all (\<lambda>e. \<not> is_submission e) [TimerTick 1]
   \<and> \<not> polling (ctl (run initial_world scenario_ready))
   \<and> polls_pending (run initial_world scenario_ready) = []
   \<and> stubMessage (ctl (step (run (step (run initial_world scenario_ready) Submit)
                                 [PromptChange (ascii ''a dog'')])
                       (SubmitReply (SubmitOk (Inr (Stub (ascii ''No API key configured.''))))))) =
       Some (ascii ''No API key configured.'')
   \<and> network (run (step (run (step (run initial_world scenario_ready) Submit)
                              [PromptChange (ascii ''a dog'')])
                    (SubmitReply (SubmitOk (Inr (Stub (ascii ''No API key configured.''))))))
               [TimerTick 1]) =
       [SubmitCall (ascii ''a cat'') [(ascii ''my-cat.png'', ascii ''data:image/png;base64,AAAA'')]]
   \<and> \<not> polling (ctl (run (step (run (step (run initial_world scenario_ready) Submit)
                              [PromptChange (ascii ''a dog'')])
                    (SubmitReply (SubmitOk (Inr (Stub (ascii ''No API key configured.''))))))
               [TimerTick 1]))
   \<and> errorMessage (ctl (run (step (run (step (run initial_world scenario_ready) Submit)
                              [PromptChange (ascii ''a dog'')])
                    (SubmitReply (SubmitOk (Inr (Stub (ascii ''No API key configured.''))))))
               [TimerTick 1])) = None"
proof -
  have h2: "\<not> submitting (ctl (run initial_world scenario_ready))"
    and h3: "trim (prompt (ctl (run initial_world scenario_ready))) \<noteq> []"
    and h4: "hasImages (ctl (run initial_world scenario_ready))"
    and h8: "\<not> polling (ctl (run initial_world scenario_ready))"
    and h9: "polls_pending (run initial_world scenario_ready) = []"
    by (simp_all add: scenario_ready_world trim_def is_ws_def ascii_def hasImages_def)
  have h5: "list_all (\<lambda>e. \<not> is_submission e) [PromptChange (ascii ''a dog'')]" by simp
  have h7: "list_all (\<lambda>e. \<not> is_submission e) [TimerTick 1]" by simp
  from stub_reply_completes_without_polling
         [where m = "ascii ''No API key configured.''", OF refl h2 h3 h4 h5 refl h7]
       h2 h3 h4 h5 h7 h8 h9
  show ?thesis
    by (simp add: scenario_ready_world referenceImages_def List.map_filter_def ascii_def
             del: step.simps)
qed

text \<open>
  Claim C6 as stated has every stub reply end in a final state.  In the example session
  the first operation is still being polled when the button is pressed again; after the
  stub reply to that second submission \<open>polling\<close> is still set, and when the status query
  of the first operation then fails, its error message is stored beside the stub message.
\<close>

theorem stub_reply_stale_polling_counterexample:
  "polling (ctl (run initial_world
      (scenario_deferred @
       [Submit, SubmitReply (SubmitOk (Inr (Stub (ascii ''No API key configured.''))))])))
   \<and> stubMessage (ctl (run initial_world
      (scenario_deferred @
       [Submit, SubmitReply (SubmitOk (Inr (Stub (ascii ''No API key configured.'')))),
        PollReply 0 (PollNotOk 500)]))) = Some (ascii ''No API key configured.'')
   \<and> errorMessage (ctl (run initial_world
      (scenario_deferred @
       [Submit, SubmitReply (SubmitOk (Inr (Stub (ascii ''No API key configured.'')))),
        PollReply 0 (PollNotOk 500)]))) = Some (ascii ''Polling failed with 500'')"
proof -
  have r: "run initial_world (scenario_deferred @ es) = run (run initial_world scenario_deferred) es"
    for es by (simp add: run_def)
  show ?thesis
    unfolding r
    by (simp add: scenario_deferred_world world_eval handleSubmit_def trim_def is_ws_def
          hasImages_def referenceImages_def List.map_filter_def decimal.simps)
qed

subsection \<open>The \<open>done\<close> field\<close>

text \<open>
  Claim C8, as amended.  \<open>poll\<close> tests \<open>status.done\<close> for truthiness.  For a payload other
  than \<open>null\<close> whose \<open>done\<close> is missing or falsy (\<open>false\<close>, \<open>null\<close>, \<open>0\<close>, the empty string)
  the reply only stores the payload: timer, \<open>polling\<close> and error message stay as they
  are.  A \<open>done\<close> that is truthy, boolean or not, clears \<open>polling\<close> and the timer.
\<close>

theorem falsy_done_keeps_polling:
  assumes "i < length (polls_pending w)" and "status \<noteq> JNull"
  shows "(\<not> truthy (get_prop status (ascii ''done'')) \<longrightarrow>
            step w (PollReply i (PollOk (Inr status))) =
              w\<lparr>polls_pending := take i (polls_pending w) @ drop (Suc i) (polls_pending w),
                ctl := (ctl w)\<lparr>operationStatus := status\<rparr>\<rparr>)
         \<and> (truthy (get_prop status (ascii ''done'')) \<longrightarrow>
            \<not> polling (ctl (step w (PollReply i (PollOk (Inr status)))))
            \<and> pollTimerRef (ctl (step w (PollReply i (PollOk (Inr status))))) = None)"
  using assms by (simp add: Let_def setState_def clearPollTimer_ctl)

theorem falsy_done_keeps_polling_witness:
  "0 < length (polls_pending (run initial_world scenario_deferred))
   \<and> JObj [(ascii ''name'', JStr (ascii ''op-123''))] \<noteq> JNull
   \<and> \<not> truthy (get_prop (JObj [(ascii ''name'', JStr (ascii ''op-123''))]) (ascii ''done''))
   \<and> truthy (get_prop (JObj [(ascii ''done'', JNum 1)]) (ascii ''done''))
   \<and> polling (ctl (step (run initial_world scenario_deferred)
        (PollReply 0 (PollOk (Inr (JObj [(ascii ''name'', JStr (ascii ''op-123''))]))))))
   \<and> timers (step (run initial_world scenario_deferred)
        (PollReply 0 (PollOk (Inr (JObj [(ascii ''name'', JStr (ascii ''op-123''))]))))) =
       [(1, ascii ''op-123'')]
   \<and> \<not> polling (ctl (step (run initial_world scenario_deferred)
        (PollReply 0 (PollOk (Inr (JObj [(ascii ''done'', JNum 1)]))))))"
proof -
  have h1: "0 < length (polls_pending (run initial_world scenario_deferred))"
    by (simp add: scenario_deferred_world)
  have a: "\<not> truthy (get_prop (JObj [(ascii ''name'', JStr (ascii ''op-123''))]) (ascii ''done''))"
    and b: "truthy (get_prop (JObj [(ascii ''done'', JNum 1)]) (ascii ''done''))"
    by (simp_all add: ascii_def)
  from falsy_done_keeps_polling [OF h1, of "JObj [(ascii ''name'', JStr (ascii ''op-123''))]"]
       falsy_done_keeps_polling [OF h1, of "JObj [(ascii ''done'', JNum 1)]"] a b h1
  show ?thesis by (simp add: scenario_deferred_world)
qed

text \<open>
  Claim C8 as stated treats every non-boolean \<open>done\<close> as "not yet complete".  In the
  example session a status payload whose \<open>done\<close> is the string "false" ends the polling.
\<close>

theorem truthy_done_string_counterexample:
  "\<not> polling (ctl (run initial_world
       (scenario_deferred @
        [PollReply 0 (PollOk (Inr (JObj [(ascii ''done'', JStr (ascii ''false''))])))])))
   \<and> timers (run initial_world
       (scenario_deferred @
        [PollReply 0 (PollOk (Inr (JObj [(ascii ''done'', JStr (ascii ''false''))])))])) = []"
  by (simp add: run_snoc scenario_deferred_world world_eval)

end
